theory Spec2Isabelle
  imports Main
begin

section \<open>JavaScript values and objects\<close>

text \<open>
  The program \<open>src/app.jsx\<close> is a Cycle.js application: cells (\<open>Item\<close>) hold a name and
  a formula, a sheet (\<open>List\<close>) folds what the cells publish into two plain objects, the
  shared scope and the mapping written to local storage.

  A plain JavaScript object with string keys is an association list of its own
  properties, in insertion order, one pair per key. A property read yields \<open>None\<close> where
  JavaScript yields \<open>undefined\<close> for a missing property. Properties inherited from
  \<open>Object.prototype\<close> are not part of the model.
\<close>

type_synonym 'a obj = "(string \<times> 'a) list"

text \<open>A value a formula computes: \<open>undefined\<close>, or a value of math.js.\<close>

datatype 'v val = Undefined | Val 'v

text \<open>What \<open>console.warn\<close> and a failing library call carry: the exception.\<close>

datatype error = Error string

subsection \<open>The Ramda functions the program calls\<close>

text \<open>\<open>R.prop(k, o)\<close> is \<open>o[k]\<close>; \<open>R.props(ks, o)\<close> reads the keys \<open>ks\<close> in order.\<close>

definition propR :: "string \<Rightarrow> 'a obj \<Rightarrow> 'a option" where
  "propR k obj = map_of obj k"

definition props :: "string list \<Rightarrow> 'a obj \<Rightarrow> 'a option list" where
  "props ks obj = map (\<lambda>k. propR k obj) ks"

text \<open>
  \<open>R.keys\<close> and \<open>R.values\<close> list the own properties; \<open>R.has(k, o)\<close> tests for an own
  property.
\<close>

definition keys :: "'a obj \<Rightarrow> string list" where
  "keys obj = map fst obj"



text \<open>
  \<open>R.assoc(k, v, o)\<close> copies \<open>o\<close> and then assigns \<open>result[k] = v\<close>: a key that exists keeps
  its place and takes the new value, a new key goes last. \<open>R.set(R.lensProp(k), v)\<close> is
  \<open>R.assoc(k, v)\<close>.
\<close>

fun assoc :: "string \<Rightarrow> 'a \<Rightarrow> 'a obj \<Rightarrow> 'a obj" where
  "assoc k v [] = [(k, v)]"
| "assoc k v ((k', v') # rest) =
     (if k' = k then (k, v) # rest else (k', v') # assoc k v rest)"

definition set_lensProp :: "string \<Rightarrow> 'a \<Rightarrow> 'a obj \<Rightarrow> 'a obj" where
  "set_lensProp k v obj = assoc k v obj"

text \<open>
  \<open>R.omit(names, o)\<close> copies the properties of \<open>o\<close> whose key is not an element of the
  array \<open>names\<close>:
  \<^verbatim>\<open>
  while (idx < len) { index[names[idx]] = 1; idx += 1 }
  for (var prop in obj) { if (!index.hasOwnProperty(prop)) result[prop] = obj[prop] }
  \<close>
\<close>

definition omit :: "string list \<Rightarrow> 'a obj \<Rightarrow> 'a obj" where
  "omit names obj = filter (\<lambda>(p, _). p \<notin> set names) obj"

text \<open>
  Indexing a JavaScript string \<open>s\<close> as if it were an array, \<open>s[idx]\<close> for
  \<open>idx < s.length\<close>, gives its characters as one-character strings.
\<close>

definition string_elements :: "string \<Rightarrow> string list" where
  "string_elements s = map (\<lambda>c. [c]) s"

text \<open>
  Older releases of Ramda test \<open>_contains(prop, names)\<close> instead, which ends in
  \<open>names.indexOf(prop) >= 0\<close>; on a string \<open>names\<close> that is a substring search.
\<close>

definition is_substring :: "string \<Rightarrow> string \<Rightarrow> bool" where
  "is_substring p s = list_ex (\<lambda>i. take (length p) (drop i s) = p) [0 ..< Suc (length s)]"

definition omit_indexOf :: "string \<Rightarrow> 'a obj \<Rightarrow> 'a obj" where
  "omit_indexOf names obj = filter (\<lambda>(p, _). \<not> is_substring p names) obj"

text \<open>
  \<open>R.zipObj(ks, vs)\<close> assigns \<open>out[ks[idx]] = vs[idx]\<close> from left to right, up to the
  shorter length.
\<close>

definition zipObj :: "string list \<Rightarrow> 'a list \<Rightarrow> 'a obj" where
  "zipObj ks vs = foldl (\<lambda>out (k, v). assoc k v out) [] (zip ks vs)"

text \<open>
  \<open>R.equals\<close> on two objects: the same keys, with equal values, in any order.
\<close>

definition equals_obj :: "'a obj \<Rightarrow> 'a obj \<Rightarrow> bool" where
  "equals_obj a b = list_all (\<lambda>k. propR k a = propR k b) (keys a @ keys b)"

section \<open>Streams as traces\<close>

text \<open>
  A stream is observed as the list of the events it delivers, in order. The operators
  of xstream the program composes are functions on such lists.

  \<open>dropRepeats(isEqual)\<close> remembers the last event it let through (\<open>None\<close> is its
  \<open>NO\<close> sentinel) and drops an event equal to it.
\<close>

fun dropRepeats_from :: "('a \<Rightarrow> 'a \<Rightarrow> bool) \<Rightarrow> 'a option \<Rightarrow> 'a list \<Rightarrow> 'a list" where
  "dropRepeats_from isEqual v [] = []"
| "dropRepeats_from isEqual v (t # ts) =
     (if (case v of None \<Rightarrow> False | Some u \<Rightarrow> isEqual t u)
      then dropRepeats_from isEqual v ts
      else t # dropRepeats_from isEqual (Some t) ts)"

definition dropRepeats :: "('a \<Rightarrow> 'a \<Rightarrow> bool) \<Rightarrow> 'a list \<Rightarrow> 'a list" where
  "dropRepeats isEqual ts = dropRepeats_from isEqual None ts"

text \<open>The event \<open>dropRepeats\<close> remembers after it has seen \<open>ts\<close>.\<close>

fun last_passed :: "('a \<Rightarrow> 'a \<Rightarrow> bool) \<Rightarrow> 'a option \<Rightarrow> 'a list \<Rightarrow> 'a option" where
  "last_passed isEqual v [] = v"
| "last_passed isEqual v (t # ts) =
     (if (case v of None \<Rightarrow> False | Some u \<Rightarrow> isEqual t u)
      then last_passed isEqual v ts
      else last_passed isEqual (Some t) ts)"

text \<open>\<open>const uniq = dropRepeats(R.equals)\<close>, on values and on objects.\<close>

definition uniq :: "'a list \<Rightarrow> 'a list" where
  "uniq = dropRepeats (\<lambda>a b. a = b)"

definition uniq_obj :: "'a obj list \<Rightarrow> 'a obj list" where
  "uniq_obj = dropRepeats equals_obj"

text \<open>
  \<open>fold(f, seed)\<close> delivers the seed first and then the accumulator after every event.
\<close>

fun fold_s :: "('s \<Rightarrow> 'e \<Rightarrow> 's) \<Rightarrow> 's \<Rightarrow> 'e list \<Rightarrow> 's list" where
  "fold_s f seed [] = [seed]"
| "fold_s f seed (e # es) = seed # fold_s f (f seed e) es"

section \<open>The formula compiler\<close>

text \<open>
  math.js is a library outside the repository. Of an expression tree the program reads
  \<open>n.isSymbolNode\<close> and \<open>n.name\<close> and walks the children that \<open>forEach\<close> visits, so a
  node of any class is these three things. \<open>math.parse\<close> and \<open>compile\<close> may throw, a
  compiled expression is evaluated against a scope object and may throw, and
  \<open>R.has(name, math)\<close> tells whether math.js exports \<open>name\<close>.
\<close>

datatype node = Node (isSymbolNode: bool) (name: string) (children: "node list")

type_synonym 'v expr = "'v val obj \<Rightarrow> error + 'v val"

record 'v mathjs =
  parse :: "string \<Rightarrow> error + node"
  compile :: "node \<Rightarrow> error + 'v expr"
  exports :: "string \<Rightarrow> bool"

text \<open>
  \<open>Node.traverse(callback)\<close> calls the callback on the node, then on every child
  followed by the child's own descendants, in order. The callback of \<open>parseFormula\<close>
  pushes onto the array \<open>vars\<close>; here it passes the array along.
\<close>

fun traverse_children :: "(node \<Rightarrow> 's \<Rightarrow> 's) \<Rightarrow> node \<Rightarrow> 's \<Rightarrow> 's" where
  "traverse_children callback (Node isSym nm cs) s =
     fold (\<lambda>child s'. traverse_children callback child (callback child s')) cs s"

definition traverse :: "(node \<Rightarrow> 's \<Rightarrow> 's) \<Rightarrow> node \<Rightarrow> 's \<Rightarrow> 's" where
  "traverse callback n s = traverse_children callback n (callback n s)"

text \<open>\<open>const notReserved = R.complement(R.has(R.__, math))\<close>\<close>

definition notReserved :: "('v, 'x) mathjs_scheme \<Rightarrow> string \<Rightarrow> bool" where
  "notReserved math nm = (\<not> exports math nm)"

record 'v formula =
  ftext :: string
  expr :: "'v expr"
  vars :: "string list"

text \<open>
  \<open>parseFormula(text)\<close> returns \<open>{ text, expr, vars, ok: true }\<close> or throws what
  \<open>math.parse\<close> or \<open>compile\<close> throws.
\<close>

definition parseFormula :: "'v mathjs \<Rightarrow> string \<Rightarrow> error + 'v formula" where
  "parseFormula math txt =
     (case parse math txt of
        Inl e \<Rightarrow> Inl e
      | Inr parsed \<Rightarrow>
          (case compile math parsed of
             Inl e \<Rightarrow> Inl e
           | Inr ex \<Rightarrow>
               Inr \<lparr> ftext = txt, expr = ex,
                     vars = traverse
                       (\<lambda>n vs. if isSymbolNode n \<and> notReserved math (name n)
                               then vs @ [name n] else vs)
                       parsed [] \<rparr>))"

text \<open>
  The symbol names of a tree in the order of the walk, one entry per occurrence.
\<close>

fun symbol_names :: "node \<Rightarrow> string list" where
  "symbol_names (Node isSym nm cs) =
     (if isSym then [nm] else []) @ concat (map symbol_names cs)"

text \<open>
  \<open>R.tryCatch(parseFormula, parseError)\<close>: the catcher receives the exception and the
  text, passes both to \<open>console.warn\<close> and answers \<open>{ ok: false }\<close>, here \<open>None\<close>;
  an object with \<open>ok: true\<close> is \<open>Some\<close> formula. The console is the list of what was
  warned, oldest first.
\<close>

datatype 'v diagnostic = ParseWarning error string | EvalWarning error "'v val obj"

type_synonym 'v console = "'v diagnostic list"

definition parseError :: "error \<Rightarrow> string \<Rightarrow> 'v console \<Rightarrow> 'v formula option \<times> 'v console" where
  "parseError e txt log = (None, log @ [ParseWarning e txt])"

definition tryCatch_parseFormula ::
  "'v mathjs \<Rightarrow> string \<Rightarrow> 'v console \<Rightarrow> 'v formula option \<times> 'v console" where
  "tryCatch_parseFormula math txt log =
     (case parseFormula math txt of
        Inr f \<Rightarrow> (Some f, log)
      | Inl e \<Rightarrow> parseError e txt log)"

definition formulaText :: "'v formula \<Rightarrow> string" where
  "formulaText f = ftext f"

section \<open>The scope lens\<close>

text \<open>
  The scope is an object whose properties are the value streams of the cells. Every
  value stream is remembered (\<open>.remember()\<close>): at any instant it holds the last value it
  delivered, or nothing before its first delivery. A trace of the scope lists, instant
  by instant, the scope object with what each of its streams holds. Between two
  deliveries of \<open>scope$\<close> the object stays and the streams move on; a delivery of
  \<open>scope$\<close> replaces the object, and the lens subscribes to the streams of the new one,
  which deliver what they hold. An instant at which nothing the lens tracks has moved
  repeats the snapshot before it.
\<close>

type_synonym 'v memory = "'v val option"

text \<open>\<open>const undefined$ = xs.create().startWith(undefined)\<close>\<close>

definition undefined_s :: "'v memory" where
  "undefined_s = Some Undefined"

text \<open>\<open>R.when(R.equals(undefined), R.always(undefined$))\<close>\<close>

definition when_undefined :: "'v memory option \<Rightarrow> 'v memory" where
  "when_undefined p = (case p of None \<Rightarrow> undefined_s | Some stream \<Rightarrow> stream)"

text \<open>
  \<open>xs.combine\<close> delivers the array of the latest values once every input has delivered
  one; with no input it delivers the empty array.
\<close>

fun combine :: "'v memory list \<Rightarrow> 'v val list option" where
  "combine [] = Some []"
| "combine (None # ms) = None"
| "combine (Some v # ms) = map_option (\<lambda>vs. v # vs) (combine ms)"

text \<open>\<open>flatten\<close> delivers what the inner streams deliver; a silent one adds nothing.\<close>

fun flatten :: "'a option list \<Rightarrow> 'a list" where
  "flatten [] = []"
| "flatten (None # rest) = flatten rest"
| "flatten (Some x # rest) = x # flatten rest"

definition lensScope :: "string list \<Rightarrow> 'v memory obj list \<Rightarrow> 'v val obj list" where
  "lensScope vs scope_s =
     uniq_obj
       (map (zipObj vs)
          (flatten
             (map combine
                (map (map when_undefined)
                   (map (props vs) scope_s)))))"


text \<open>
  The value stream of a cell with the accepted formula \<open>f\<close>: every snapshot of the lens
  is evaluated, an exception is warned and replaced by \<open>undefined\<close>, repeats are
  dropped.
\<close>

definition tryCatch_eval :: "'v formula \<Rightarrow> 'v val obj \<Rightarrow> 'v val \<times> 'v console" where
  "tryCatch_eval f scope =
     (case expr f scope of
        Inr v \<Rightarrow> (v, [])
      | Inl e \<Rightarrow> (Undefined, [EvalWarning e scope]))"

definition evaluations :: "'v formula \<Rightarrow> 'v memory obj list \<Rightarrow> ('v val \<times> 'v console) list" where
  "evaluations f scope_s = map (tryCatch_eval f) (lensScope (vars f) scope_s)"

definition value_s :: "'v formula \<Rightarrow> 'v memory obj list \<Rightarrow> 'v val list" where
  "value_s f scope_s = uniq (map fst (evaluations f scope_s))"

definition value_console :: "'v formula \<Rightarrow> 'v memory obj list \<Rightarrow> 'v console" where
  "value_console f scope_s = concat (map snd (evaluations f scope_s))"

text \<open>What a remembered stream holds after it delivered \<open>ts\<close>.\<close>

definition remember :: "'a list \<Rightarrow> 'a option" where
  "remember ts = (if ts = [] then None else Some (last ts))"

section \<open>The cell\<close>

text \<open>
  The events a cell receives: the payload of \<open>initial$\<close>, the debounced text of the name
  field and of the formula field, and a click on the remove button.
\<close>

record initial =
  i_name :: string
  i_formula :: string

datatype item_event =
    InitialEv initial
  | NameInput string
  | FormulaInput string
  | RemoveClick

text \<open>
  What a cell delivers on its sinks: \<open>{ name, formula, value$ }\<close> on \<open>target$\<close>, a pair
  of names on \<open>rename$\<close>, a name on \<open>remove$\<close>. The stream \<open>value$\<close> is named by a
  handle of type \<open>'s\<close>.
\<close>

record 's target =
  t_name :: string
  t_formula :: string
  t_value_s :: 's

datatype 's sink = Target "'s target" | Rename string string | Remove string

text \<open>
  The state of a cell: what the \<open>uniq\<close> of \<open>name$\<close> let through last, which is also what
  \<open>name$\<close> remembers; the raw text the \<open>uniq\<close> of \<open>formula$\<close> let through last; the
  formula \<open>formula$\<close> remembers; the name \<open>remove$\<close> will deliver; the console.
\<close>

record 'v item =
  name_s :: "string option"
  formula_uniq :: "string option"
  formula_s :: "'v formula option"
  remove_name :: string
  console :: "'v console"

definition Item_init :: "'v item" where
  "Item_init = \<lparr> name_s = None, formula_uniq = None, formula_s = None,
                 remove_name = [], console = [] \<rparr>"

text \<open>
  A name reaches \<open>name$\<close>: \<open>uniq\<close> drops a repeat; otherwise \<open>rename$\<close> pairs it with
  the name before, and \<open>target$\<close> combines it with the text of the accepted formula.
\<close>

definition name_arrives :: "'s \<Rightarrow> string \<Rightarrow> 'v item \<Rightarrow> 'v item \<times> 's sink list" where
  "name_arrives self n st =
     (if name_s st = Some n then (st, [])
      else (st \<lparr> name_s := Some n \<rparr>,
            (case name_s st of None \<Rightarrow> [] | Some before \<Rightarrow> [Rename before n]) @
            (case formula_s st of
               None \<Rightarrow> []
             | Some f \<Rightarrow>
                 [Target \<lparr> t_name = n, t_formula = formulaText f, t_value_s = self \<rparr>])))"

text \<open>
  A text reaches \<open>formula$\<close>: \<open>uniq\<close> drops a repeat of the raw text; otherwise it is
  compiled, and only a formula that is \<open>ok\<close> passes \<open>filter(f => f.ok)\<close>, is
  remembered and is combined with the name on \<open>target$\<close>.
\<close>

definition formula_arrives ::
  "'v mathjs \<Rightarrow> 's \<Rightarrow> string \<Rightarrow> 'v item \<Rightarrow> 'v item \<times> 's sink list" where
  "formula_arrives math self txt st =
     (if formula_uniq st = Some txt then (st, [])
      else
        (case tryCatch_parseFormula math txt (console st) of
           (None, log) \<Rightarrow> (st \<lparr> formula_uniq := Some txt, console := log \<rparr>, [])
         | (Some f, log) \<Rightarrow>
             (st \<lparr> formula_uniq := Some txt, formula_s := Some f, console := log \<rparr>,
              (case name_s st of
                 None \<Rightarrow> []
               | Some n \<Rightarrow>
                   [Target \<lparr> t_name = n, t_formula = formulaText f, t_value_s = self \<rparr>]))))"

text \<open>
  \<open>Item\<close>, one event at a time. The payload of \<open>initial$\<close> goes to \<open>name$\<close>,
  \<open>formula$\<close> and \<open>remove$\<close> as it is; the text of the name field passes
  \<open>!R.isEmpty(name) && notReserved(name)\<close> first.
\<close>

definition Item ::
  "'v mathjs \<Rightarrow> 's \<Rightarrow> 'v item \<Rightarrow> item_event \<Rightarrow> 'v item \<times> 's sink list" where
  "Item math self st ev =
     (case ev of
        InitialEv ini \<Rightarrow>
          (case name_arrives self (i_name ini) st of (st1, out1) \<Rightarrow>
             (case formula_arrives math self (i_formula ini) st1 of (st2, out2) \<Rightarrow>
                (st2 \<lparr> remove_name := i_name ini \<rparr>, out1 @ out2)))
      | NameInput n \<Rightarrow>
          (if n \<noteq> [] \<and> notReserved math n
           then (case name_arrives self n st of (st1, out1) \<Rightarrow>
                   (st1 \<lparr> remove_name := n \<rparr>, out1))
           else (st, []))
      | FormulaInput txt \<Rightarrow> formula_arrives math self txt st
      | RemoveClick \<Rightarrow> (st, [Remove (remove_name st)]))"

section \<open>The sheet\<close>

text \<open>
  What reaches the sheet through \<open>targetProxy$\<close> and \<open>removeProxy$\<close>, in the order of
  arrival.
\<close>

datatype 's signal = TargetSig "'s target" | RemoveSig string

text \<open>
  \<open>target => R.set(R.lensProp(target.name), target.formula)\<close> and its sibling for
  \<open>target.value$\<close>.
\<close>

definition formulaReducer :: "'s target \<Rightarrow> string obj \<Rightarrow> string obj" where
  "formulaReducer target = set_lensProp (t_name target) (t_formula target)"

definition valueReducer :: "'s target \<Rightarrow> 's obj \<Rightarrow> 's obj" where
  "valueReducer target = set_lensProp (t_name target) (t_value_s target)"

text \<open>
  \<open>removeProxy$.map(R.omit)\<close>: the name, a string, is handed to \<open>R.omit\<close> in the place
  of the array of names. The second definition is the same call on an older release of
  Ramda.
\<close>

definition removeReducer :: "string \<Rightarrow> 'a obj \<Rightarrow> 'a obj" where
  "removeReducer nm = omit (string_elements nm)"

definition removeReducer_indexOf :: "string \<Rightarrow> 'a obj \<Rightarrow> 'a obj" where
  "removeReducer_indexOf nm = omit_indexOf nm"

fun storageReducer :: "'s signal \<Rightarrow> string obj \<Rightarrow> string obj" where
  "storageReducer (TargetSig target) = formulaReducer target"
| "storageReducer (RemoveSig nm) = removeReducer nm"

fun scopeReducer :: "'s signal \<Rightarrow> 's obj \<Rightarrow> 's obj" where
  "scopeReducer (TargetSig target) = valueReducer target"
| "scopeReducer (RemoveSig nm) = removeReducer nm"

definition storageReducer_s :: "'s signal list \<Rightarrow> (string obj \<Rightarrow> string obj) list" where
  "storageReducer_s signals = map storageReducer signals"

definition scopeReducer_s :: "'s signal list \<Rightarrow> ('s obj \<Rightarrow> 's obj) list" where
  "scopeReducer_s signals = map scopeReducer signals"

text \<open>
  The states of the persisted mapping, \<open>storageReducer$.fold(..., fromStorage)\<close> with
  \<open>fromStorage\<close> the mapping that \<open>JSON.parse\<close> made of the stored item; the states
  that pass \<open>uniq\<close>; and the write requests made of them. \<open>JSON.stringify\<close> is a
  parameter, and so is the type of what it returns.
\<close>

definition storage_states :: "string obj \<Rightarrow> 's signal list \<Rightarrow> string obj list" where
  "storage_states fromStorage signals =
     fold_s (\<lambda>storage reducer. reducer storage) fromStorage (storageReducer_s signals)"

record 'j request =
  key :: string
  value_j :: 'j

definition requests :: "(string obj \<Rightarrow> 'j) \<Rightarrow> string obj list \<Rightarrow> 'j request list" where
  "requests JSON_stringify states =
     map (\<lambda>storage. \<lparr> key = ''formulas'', value_j = JSON_stringify storage \<rparr>)
       (uniq_obj states)"


text \<open>\<open>scope$ = scopeReducer$.fold((scope, reducer) => reducer(scope), {})\<close>\<close>

definition scope_s :: "'s signal list \<Rightarrow> 's obj list" where
  "scope_s signals = fold_s (\<lambda>scope reducer. reducer scope) [] (scopeReducer_s signals)"

text \<open>
  An instant of the scope for the lens: the object \<open>scope$\<close> delivered last, each stream
  replaced by what it holds.
\<close>

definition instant :: "('s \<Rightarrow> 'v memory) \<Rightarrow> 's obj \<Rightarrow> 'v memory obj" where
  "instant holds scope = map (\<lambda>(k, stream). (k, holds stream)) scope"


text \<open>
  The collection gives every restored source a cell of its own; \<open>Collection.merge\<close>
  gathers \<open>target$\<close> and \<open>remove$\<close> of all cells for the proxies. The handle of a
  cell's value stream is its position in the collection.
\<close>

fun to_signal :: "'s sink \<Rightarrow> 's signal option" where
  "to_signal (Target target) = Some (TargetSig target)"
| "to_signal (Remove nm) = Some (RemoveSig nm)"
| "to_signal (Rename before after) = None"



section \<open>A small math.js for the examples\<close>

text \<open>
  Three texts that parse, \<open>a + a\<close>, \<open>x + 1\<close> and \<open>r * r * pi\<close>, with the trees
  \<open>math.parse\<close> builds for them and what their compiled expressions do; every other
  text, such as \<open>1 +\<close>, does not parse. Adding \<open>undefined\<close> throws.
\<close>

definition example_parse :: "string \<Rightarrow> error + node" where
  "example_parse txt =
     (if txt = ''a + a'' then Inr (Node False [] [Node True ''a'' [], Node True ''a'' []])
      else if txt = ''x + 1'' then Inr (Node False [] [Node True ''x'' [], Node False [] []])
      else if txt = ''r * r * pi''
        then Inr (Node False []
                    [Node False [] [Node True ''r'' [], Node True ''r'' []], Node True ''pi'' []])
      else Inl (Error ''SyntaxError: Unexpected end of expression''))"

definition example_add :: "string \<Rightarrow> string \<Rightarrow> int expr" where
  "example_add a b scope =
     (case (propR a scope, propR b scope) of
        (Some (Val x), Some (Val y)) \<Rightarrow> Inr (Val (x + y))
      | _ \<Rightarrow> Inl (Error ''TypeError: Unexpected type of argument in function add''))"

definition example_succ :: "string \<Rightarrow> int expr" where
  "example_succ a scope =
     (case propR a scope of
        Some (Val x) \<Rightarrow> Inr (Val (x + 1))
      | _ \<Rightarrow> Inl (Error ''TypeError: Unexpected type of argument in function add''))"

definition example_const :: "int expr" where
  "example_const scope = Inr (Val 6)"

definition example_compile :: "node \<Rightarrow> error + int expr" where
  "example_compile n =
     (if n = Node False [] [Node True ''a'' [], Node True ''a'' []] then Inr (example_add ''a'' ''a'')
      else if n = Node False [] [Node True ''x'' [], Node False [] []] then Inr (example_succ ''x'')
      else Inr example_const)"

definition example_formula :: "int formula" where
  "example_formula = \<lparr> ftext = ''x + 1'', expr = example_succ ''x'', vars = [''x''] \<rparr>"

text \<open>The value stream with the handle \<open>i\<close> holds the number \<open>i + 1\<close>.\<close>

definition example_holds :: "nat \<Rightarrow> int memory" where
  "example_holds stream = Some (Val (int stream + 1))"

definition example_exports :: "string \<Rightarrow> bool" where
  "example_exports nm = (nm \<in> set [''pi'', ''e'', ''sqrt'', ''add''])"

definition example_math :: "int mathjs" where
  "example_math = \<lparr> parse = example_parse, compile = example_compile, exports = example_exports \<rparr>"

section \<open>Properties of the compiler\<close>

lemma traverse_children_collect:
  "traverse_children
     (\<lambda>n vs. if isSymbolNode n \<and> P (name n) then vs @ [name n] else vs) t acc
   = acc @ filter P (concat (map symbol_names (children t)))"
proof (induction t arbitrary: acc)
  case (Node isSym nm cs)
  let ?cb = "\<lambda>n vs. if isSymbolNode n \<and> P (name n) then vs @ [name n] else vs"
  have step: "traverse_children ?cb c (?cb c a) = a @ filter P (symbol_names c)"
    if "c \<in> set cs" for c a
    using Node.IH [OF that] by (cases c) simp
  have "fold (\<lambda>child s'. traverse_children ?cb child (?cb child s')) ds a
          = a @ filter P (concat (map symbol_names ds))"
    if "set ds \<subseteq> set cs" for ds a
    using that
  proof (induction ds arbitrary: a)
    case Nil
    show ?case by simp
  next
    case (Cons d ds)
    then have "d \<in> set cs" and "set ds \<subseteq> set cs" by simp_all
    then show ?case
      using Cons.IH
      by (simp only: fold_simps step o_apply list.map concat.simps filter_append append_assoc)
  qed
  then show ?case by simp
qed

lemma traverse_collect:
  "traverse (\<lambda>n vs. if isSymbolNode n \<and> P (name n) then vs @ [name n] else vs) t []
   = filter P (symbol_names t)"
  by (cases t) (simp add: traverse_def traverse_children_collect)

lemma parseFormula_ftext: "parseFormula math txt = Inr f \<Longrightarrow> ftext f = txt"
  by (auto simp: parseFormula_def split: sum.splits)

text \<open>
  C1, as the code has it. For every formula text that parses, the list \<open>vars\<close> that
  \<open>parseFormula\<close> returns holds the names of the symbol nodes that math.js does not
  export, in the order of the walk, one entry per occurrence: a name that occurs twice
  is listed twice.
\<close>

theorem parseFormula_vars_occurrences:
  assumes "parseFormula math txt = Inr f" and "parse math txt = Inr parsed"
  shows "vars f = filter (notReserved math) (symbol_names parsed)"
  using assms
  by (auto simp: parseFormula_def traverse_collect split: sum.splits)

theorem parseFormula_vars_occurrences_witness:
  "parseFormula example_math ''r * r * pi''
     = Inr \<lparr> ftext = ''r * r * pi'', expr = example_const, vars = [''r'', ''r''] \<rparr>
   \<and> parse example_math ''r * r * pi''
     = Inr (Node False [] [Node False [] [Node True ''r'' [], Node True ''r'' []],
                           Node True ''pi'' []])
   \<and> vars \<lparr> ftext = ''r * r * pi'', expr = example_const, vars = [''r'', ''r''] \<rparr>
     = filter (notReserved example_math)
         (symbol_names (Node False [] [Node False [] [Node True ''r'' [], Node True ''r'' []],
                                       Node True ''pi'' []]))"
proof -
  have p: "parse example_math ''r * r * pi''
     = Inr (Node False [] [Node False [] [Node True ''r'' [], Node True ''r'' []],
                           Node True ''pi'' []])"
    by (simp add: example_math_def example_parse_def)
  have f: "parseFormula example_math ''r * r * pi''
     = Inr \<lparr> ftext = ''r * r * pi'', expr = example_const, vars = [''r'', ''r''] \<rparr>"
    by (simp add: parseFormula_def example_math_def example_parse_def example_compile_def
        traverse_def notReserved_def example_exports_def)
  show ?thesis
    using parseFormula_vars_occurrences [OF f p] f p
    by (simp add: notReserved_def example_math_def example_exports_def)
qed

text \<open>
  C1, as the specification words it, fails: the list is not a set. The text \<open>a + a\<close>
  parses, and its list of free variables holds \<open>a\<close> twice.
\<close>

theorem parseFormula_vars_duplicates_counterexample:
  "parseFormula example_math ''a + a''
     = Inr \<lparr> ftext = ''a + a'', expr = example_add ''a'' ''a'', vars = [''a'', ''a''] \<rparr>
   \<and> \<not> distinct [''a'', ''a'']"
  by (simp add: parseFormula_def example_math_def example_parse_def example_compile_def
      traverse_def notReserved_def example_exports_def)

section \<open>Properties of objects\<close>

lemma equals_obj_iff: "equals_obj a b \<longleftrightarrow> map_of a = map_of b"
proof
  assume e: "equals_obj a b"
  show "map_of a = map_of b"
  proof
    fix k
    show "map_of a k = map_of b k"
    proof (cases "k \<in> set (map fst a @ map fst b)")
      case True
      with e show ?thesis
        by (auto simp: equals_obj_def propR_def keys_def list_all_iff)
    next
      case False
      then have "map_of a k = None" and "map_of b k = None"
        by (simp_all add: map_of_eq_None_iff)
      then show ?thesis by simp
    qed
  qed
next
  assume "map_of a = map_of b"
  then show "equals_obj a b"
    by (simp add: equals_obj_def propR_def list_all_iff)
qed

lemma equals_obj_kernel: "equals_obj = (\<lambda>a b. map_of a = map_of b)"
  by (intro ext) (rule equals_obj_iff)








section \<open>Properties of the stream operators\<close>






lemma dropRepeats_from_append:
  "dropRepeats_from eq v (xs @ ys)
     = dropRepeats_from eq v xs @ dropRepeats_from eq (last_passed eq v xs) ys"
  by (induction xs arbitrary: v) simp_all

lemma last_passed_kernel:
  "xs \<noteq> [] \<Longrightarrow>
     \<exists>z. last_passed (\<lambda>a b. f a = f b) v xs = Some z \<and> f z = f (last xs)"
proof (induction xs arbitrary: v)
  case Nil
  then show ?case by simp
next
  case (Cons x xs)
  show ?case
  proof (cases "xs = []")
    case True
    then show ?thesis by (cases v) auto
  next
    case False
    then show ?thesis using Cons.IH by simp
  qed
qed

lemma dropRepeats_from_successively:
  "successively (\<lambda>a b. \<not> eq b a) (dropRepeats_from eq v xs)
   \<and> (\<forall>u. v = Some u \<longrightarrow> dropRepeats_from eq v xs \<noteq> [] \<longrightarrow>
          \<not> eq (hd (dropRepeats_from eq v xs)) u)"
proof (induction xs arbitrary: v)
  case Nil
  show ?case by simp
next
  case (Cons x xs)
  show ?case
    using Cons.IH [of v] Cons.IH [of "Some x"]
    by (auto simp: successively_Cons split: option.splits)
qed

lemma dropRepeats_from_snoc_kernel:
  assumes "xs \<noteq> []"
  shows "dropRepeats_from (\<lambda>a b. f a = f b) v (xs @ [x])
     = dropRepeats_from (\<lambda>a b. f a = f b) v xs @ (if f x = f (last xs) then [] else [x])"
proof -
  obtain z where "last_passed (\<lambda>a b. f a = f b) v xs = Some z" and "f z = f (last xs)"
    using last_passed_kernel [OF assms] by blast
  then show ?thesis
    by (simp add: dropRepeats_from_append)
qed


lemma uniq_obj_snoc:
  "xs \<noteq> [] \<Longrightarrow>
     uniq_obj (xs @ [x]) = uniq_obj xs @ (if equals_obj x (last xs) then [] else [x])"
  unfolding uniq_obj_def dropRepeats_def equals_obj_kernel
  by (rule dropRepeats_from_snoc_kernel)

lemma uniq_snoc:
  "xs \<noteq> [] \<Longrightarrow> uniq (xs @ [x]) = uniq xs @ (if x = last xs then [] else [x])"
  unfolding uniq_def dropRepeats_def
  using dropRepeats_from_snoc_kernel [where f = "\<lambda>a. a" and xs = xs and v = None and x = x]
  by simp

lemma uniq_single: "uniq [x] = [x]"
  by (simp add: uniq_def dropRepeats_def)


lemma uniq_obj_successively: "successively (\<lambda>a b. \<not> equals_obj b a) (uniq_obj xs)"
  unfolding uniq_obj_def dropRepeats_def
  using dropRepeats_from_successively [of equals_obj None xs] by simp


lemma last_uniq: "xs \<noteq> [] \<Longrightarrow> uniq xs \<noteq> [] \<and> last (uniq xs) = last xs"
proof (induction xs rule: rev_induct)
  case Nil
  then show ?case by simp
next
  case (snoc x xs)
  show ?case
  proof (cases "xs = []")
    case True
    then show ?thesis by (simp add: uniq_single)
  next
    case False
    then show ?thesis using snoc.IH by (simp add: uniq_snoc)
  qed
qed

lemma remember_uniq: "remember (uniq (xs @ [x])) = Some x"
  using last_uniq [of "xs @ [x]"] by (simp add: remember_def)




section \<open>Properties of the scope lens\<close>













section \<open>Properties of the cell\<close>

text \<open>
  C6. When the compiled expression throws on the snapshot the lens delivered last, the
  evaluation returns \<open>undefined\<close> with one warning and nothing is raised; the cell then
  holds \<open>undefined\<close>, the warning is the last line on the console, and after the next
  snapshot, on which the expression succeeds, the cell holds the new value.
\<close>

theorem eval_failure_gives_undefined:
  assumes "lensScope (vars f) tr = ss @ [s]" and "expr f s = Inl e"
    and "lensScope (vars f) tr2 = ss @ [s, s2]" and "expr f s2 = Inr v"
  shows "tryCatch_eval f s = (Undefined, [EvalWarning e s])
       \<and> remember (value_s f tr) = Some Undefined
       \<and> value_console f tr
           = concat (map (\<lambda>p. snd (tryCatch_eval f p)) ss) @ [EvalWarning e s]
       \<and> remember (value_s f tr2) = Some v"
  using assms remember_uniq [of "map fst (map (tryCatch_eval f) ss)" Undefined]
     remember_uniq [of "map fst (map (tryCatch_eval f) (ss @ [s]))" v]
  by (simp add: value_s_def value_console_def evaluations_def tryCatch_eval_def comp_def)

theorem eval_failure_gives_undefined_witness:
  "lensScope (vars example_formula) [[]] = [] @ [[(''x'', Undefined :: int val)]]
   \<and> expr example_formula [(''x'', Undefined)]
       = Inl (Error ''TypeError: Unexpected type of argument in function add'')
   \<and> lensScope (vars example_formula) [[], [(''x'', Some (Val (1::int)))]]
       = [] @ [[(''x'', Undefined)], [(''x'', Val 1)]]
   \<and> expr example_formula [(''x'', Val 1)] = Inr (Val 2)
   \<and> remember (value_s example_formula [[]]) = Some Undefined
   \<and> value_console example_formula [[]]
       = [EvalWarning (Error ''TypeError: Unexpected type of argument in function add'')
            [(''x'', Undefined)]]
   \<and> remember (value_s example_formula [[], [(''x'', Some (Val 1))]]) = Some (Val 2)"
proof -
  have v: "vars example_formula = [''x'']"
    by (simp add: example_formula_def)
  have h1: "lensScope (vars example_formula) [[]] = [] @ [[(''x'', Undefined :: int val)]]"
    by (simp add: v lensScope_def props_def propR_def when_undefined_def undefined_s_def
        zipObj_def uniq_obj_def dropRepeats_def)
  have h2: "expr example_formula [(''x'', Undefined)]
       = Inl (Error ''TypeError: Unexpected type of argument in function add'')"
    by (simp add: example_formula_def example_succ_def propR_def)
  have h3: "lensScope (vars example_formula) [[], [(''x'', Some (Val (1::int)))]]
       = [] @ [[(''x'', Undefined)], [(''x'', Val 1)]]"
    by (simp add: v lensScope_def props_def propR_def when_undefined_def undefined_s_def
        zipObj_def uniq_obj_def dropRepeats_def equals_obj_def keys_def)
  have h4: "expr example_formula [(''x'', Val 1)] = Inr (Val 2)"
    by (simp add: example_formula_def example_succ_def propR_def)
  show ?thesis
    using eval_failure_gives_undefined [OF h1 h2 h3 h4] h1 h2 h3 h4
    by simp
qed

text \<open>
  C5. A text of the formula field that does not compile: the compiler answers with the
  invalid formula and a warning; the cell keeps the formula it had accepted, and so the
  value stream made from it, and its name; it publishes nothing, so the scope and the
  persisted mapping stay as they are; and the console of the cell receives the warning,
  unless the text repeats the raw text before it, which \<open>uniq\<close> drops ahead of the
  compiler.
\<close>

theorem invalid_formula_dropped:
  assumes "parseFormula math txt = Inl e"
  shows "tryCatch_parseFormula math txt log = (None, log @ [ParseWarning e txt])
       \<and> formula_s (fst (Item math self st (FormulaInput txt))) = formula_s st
       \<and> map_option (\<lambda>f. value_s f scope_trace) (formula_s (fst (Item math self st (FormulaInput txt))))
           = map_option (\<lambda>f. value_s f scope_trace) (formula_s st)
       \<and> name_s (fst (Item math self st (FormulaInput txt))) = name_s st
       \<and> snd (Item math self st (FormulaInput txt)) = []
       \<and> console (fst (Item math self st (FormulaInput txt)))
           = (if formula_uniq st = Some txt then console st
              else console st @ [ParseWarning e txt])
       \<and> scope_s (signals @ flatten (map to_signal (snd (Item math self st (FormulaInput txt)))))
           = scope_s signals
       \<and> storage_states fromStorage
            (signals @ flatten (map to_signal (snd (Item math self st (FormulaInput txt)))))
           = storage_states fromStorage signals"
  using assms
  by (simp add: Item_def formula_arrives_def tryCatch_parseFormula_def parseError_def)

theorem invalid_formula_dropped_witness:
  "parseFormula example_math ''1 +'' = Inl (Error ''SyntaxError: Unexpected end of expression'')
   \<and> Item example_math (0::nat)
       \<lparr> name_s = Some ''y'', formula_uniq = Some ''x + 1'', formula_s = Some example_formula,
         remove_name = ''y'', console = [] \<rparr>
       (FormulaInput ''1 +'')
     = (\<lparr> name_s = Some ''y'', formula_uniq = Some ''1 +'', formula_s = Some example_formula,
          remove_name = ''y'',
          console = [ParseWarning (Error ''SyntaxError: Unexpected end of expression'') ''1 +''] \<rparr>,
        [])"
proof -
  have h: "parseFormula example_math ''1 +''
      = Inl (Error ''SyntaxError: Unexpected end of expression'')"
    by (simp add: parseFormula_def example_math_def example_parse_def)
  show ?thesis
    using invalid_formula_dropped [OF h, where self = "0::nat" and signals = "[]" and fromStorage = "[]"
        and st = "\<lparr> name_s = Some ''y'', formula_uniq = Some ''x + 1'',
          formula_s = Some example_formula, remove_name = ''y'', console = [] \<rparr>"] h
    by (simp add: Item_def formula_arrives_def tryCatch_parseFormula_def parseError_def)
qed

lemma name_s_name_arrives: "name_s (fst (name_arrives self n st)) = Some n"
  by (simp add: name_arrives_def)

lemma name_s_formula_arrives:
  "name_s (fst (formula_arrives math self txt st)) = name_s st"
  by (simp add: formula_arrives_def split: prod.splits option.splits)

lemma Item_initial_sinks:
  "snd (Item math self Item_init (InitialEv ini))
     = (case parseFormula math (i_formula ini) of
          Inl e \<Rightarrow> []
        | Inr f \<Rightarrow>
            [Target \<lparr> t_name = i_name ini, t_formula = i_formula ini, t_value_s = self \<rparr>])"
  by (auto simp: Item_def name_arrives_def formula_arrives_def Item_init_def
      tryCatch_parseFormula_def parseError_def formulaText_def parseFormula_ftext
      split: sum.splits)

text \<open>
  C10. The name of the payload of \<open>initial$\<close> becomes the name of the cell, and the name
  \<open>remove$\<close> will deliver, whatever it is; a restored cell whose formula compiles
  publishes under that name. A text of the name field that is empty or exported by
  math.js changes nothing and publishes nothing.
\<close>

theorem restored_name_unconditional:
  "name_s (fst (Item math self st (InitialEv ini))) = Some (i_name ini)
   \<and> remove_name (fst (Item math self st (InitialEv ini))) = i_name ini
   \<and> (parseFormula math (i_formula ini) = Inr f \<longrightarrow>
        snd (Item math self Item_init (InitialEv ini))
          = [Target \<lparr> t_name = i_name ini, t_formula = i_formula ini, t_value_s = self \<rparr>])
   \<and> (n = [] \<or> exports math n \<longrightarrow> Item math self st (NameInput n) = (st, []))"
proof -
  have "name_s (fst (Item math self st (InitialEv ini))) = Some (i_name ini)"
    by (simp add: Item_def split_beta name_s_formula_arrives name_s_name_arrives)
  moreover have "remove_name (fst (Item math self st (InitialEv ini))) = i_name ini"
    by (simp add: Item_def split_beta)
  moreover have "Item math self st (NameInput n) = (st, [])" if "n = [] \<or> exports math n"
    using that by (auto simp: Item_def notReserved_def)
  ultimately show ?thesis
    by (simp add: Item_initial_sinks)
qed

theorem restored_name_unconditional_witness:
  "name_s (fst (Item example_math (0::nat) Item_init
       (InitialEv \<lparr> i_name = ''pi'', i_formula = ''x + 1'' \<rparr>))) = Some ''pi''
   \<and> name_s (fst (Item example_math (0::nat) Item_init
       (InitialEv \<lparr> i_name = [], i_formula = ''x + 1'' \<rparr>))) = Some []
   \<and> snd (Item example_math (0::nat) Item_init
       (InitialEv \<lparr> i_name = ''pi'', i_formula = ''x + 1'' \<rparr>))
       = [Target \<lparr> t_name = ''pi'', t_formula = ''x + 1'', t_value_s = 0 \<rparr>]
   \<and> Item example_math (0::nat) Item_init (NameInput ''pi'') = (Item_init, [])"
proof -
  have p: "parseFormula example_math ''x + 1''
     = Inr \<lparr> ftext = ''x + 1'', expr = example_succ ''x'', vars = [''x''] \<rparr>"
    by (simp add: parseFormula_def example_math_def example_parse_def example_compile_def
        traverse_def notReserved_def example_exports_def)
  have x: "exports example_math ''pi''"
    by (simp add: example_math_def example_exports_def)
  show ?thesis
    using restored_name_unconditional [where math = example_math and self = "0::nat"
        and st = Item_init and ini = "\<lparr> i_name = ''pi'', i_formula = ''x + 1'' \<rparr>" and n = "''pi''"
        and f = "\<lparr> ftext = ''x + 1'', expr = example_succ ''x'', vars = [''x''] \<rparr>"]
      restored_name_unconditional [where math = example_math and self = "0::nat"
        and st = Item_init and ini = "\<lparr> i_name = [], i_formula = ''x + 1'' \<rparr>" and n = "[]"
        and f = "\<lparr> ftext = ''x + 1'', expr = example_succ ''x'', vars = [''x''] \<rparr>"]
      p x
    by simp
qed

section \<open>Properties of the sheet\<close>







text \<open>
  C8. Of two states of the persisted mapping in a row that are equal, only the first
  is written; no write carries a mapping equal to the one written before it; and, the
  serialisation being injective, no write carries the text written before it.
\<close>

theorem storage_writes_deduplicated:
  assumes "equals_obj s2 s" and "inj JSON_stringify"
  shows "requests JSON_stringify (states @ [s, s2]) = requests JSON_stringify (states @ [s])
       \<and> successively (\<lambda>p q. \<not> equals_obj q p) (uniq_obj states)
       \<and> distinct_adj (map value_j (requests JSON_stringify states))"
proof -
  have "uniq_obj ((states @ [s]) @ [s2]) = uniq_obj (states @ [s])"
    using assms(1) by (subst uniq_obj_snoc) simp_all
  then have one: "requests JSON_stringify (states @ [s, s2]) = requests JSON_stringify (states @ [s])"
    by (simp add: requests_def)
  have "successively (\<lambda>p q. JSON_stringify p \<noteq> JSON_stringify q) (uniq_obj states)"
  proof (rule successively_mono [OF uniq_obj_successively])
    fix p q :: "string obj"
    assume "\<not> equals_obj q p"
    then have "p \<noteq> q"
      by (auto simp: equals_obj_iff)
    then show "JSON_stringify p \<noteq> JSON_stringify q"
      using assms(2) by (auto dest: injD)
  qed
  then have "distinct_adj (map value_j (requests JSON_stringify states))"
    by (simp add: requests_def distinct_adj_def successively_map comp_def)
  then show ?thesis
    using one uniq_obj_successively by simp
qed

theorem storage_writes_deduplicated_witness:
  "equals_obj [(''a'', ''1'')] [(''a'', ''1'')]
   \<and> requests (\<lambda>storage. storage) ([] @ [[(''a'', ''1'')], [(''a'', ''1'')]])
       = requests (\<lambda>storage. storage) ([] @ [[(''a'', ''1'')]])
   \<and> requests (\<lambda>storage. storage) [[(''a'', ''1'')], [(''a'', ''1'')]]
       = [\<lparr> key = ''formulas'', value_j = [(''a'', ''1'')] \<rparr>]
   \<and> distinct_adj (map value_j (requests (\<lambda>storage. storage) [[(''a'', ''1'')], [(''a'', ''1'')]]))"
proof -
  have h1: "equals_obj [(''a'', ''1'')] [(''a'', ''1'')]"
    by (simp add: equals_obj_iff)
  have h2: "inj (\<lambda>storage :: string obj. storage)"
    by (simp add: inj_def)
  show ?thesis
    using storage_writes_deduplicated [OF h1 h2, where states = "[]"] h1
      storage_writes_deduplicated [OF h1 h2, where states = "[[(''a'', ''1'')], [(''a'', ''1'')]]"]
    by (simp add: requests_def uniq_obj_def dropRepeats_def)
qed






text \<open>
  For a name of one character the removal signal does remove the entry of that name
  and no other.
\<close>

lemma removeReducer_one_character:
  "removeReducer [c] obj = filter (\<lambda>(k, _). k \<noteq> [c]) obj"
  by (simp add: removeReducer_def omit_def string_elements_def)

text \<open>
  C2 fails on the code. Cells \<open>a\<close> and \<open>ab\<close> have published; the removal signal of \<open>ab\<close>
  arrives. \<open>R.omit\<close> receives the string \<open>ab\<close> where it expects the array \<open>[ab]\<close>:
  the entry of \<open>ab\<close> stays in the scope and in the persisted mapping, and the entry of the
  other cell, \<open>a\<close>, is gone; a formula that refers to \<open>ab\<close> still sees the value of
  \<open>ab\<close>, and one that refers to \<open>a\<close> sees \<open>undefined\<close>. With the substring test of
  older releases of Ramda both entries are gone.
\<close>

theorem remove_signal_omits_characters:
  "last (scope_s
      [TargetSig \<lparr> t_name = ''a'', t_formula = ''1'', t_value_s = (0::nat) \<rparr>,
       TargetSig \<lparr> t_name = ''ab'', t_formula = ''a + 1'', t_value_s = 1 \<rparr>,
       RemoveSig ''ab'']) = [(''ab'', 1)]
   \<and> last (storage_states []
      [TargetSig \<lparr> t_name = ''a'', t_formula = ''1'', t_value_s = (0::nat) \<rparr>,
       TargetSig \<lparr> t_name = ''ab'', t_formula = ''a + 1'', t_value_s = 1 \<rparr>,
       RemoveSig ''ab'']) = [(''ab'', ''a + 1'')]
   \<and> lensScope [''ab''] [instant example_holds [(''ab'', 1)]] = [[(''ab'', Val 2)]]
   \<and> lensScope [''a''] [instant example_holds [(''ab'', 1)]] = [[(''a'', Undefined)]]
   \<and> removeReducer_indexOf ''ab'' [(''a'', ''1''), (''ab'', ''a + 1'')] = []"
proof -
  have "last (scope_s
      [TargetSig \<lparr> t_name = ''a'', t_formula = ''1'', t_value_s = (0::nat) \<rparr>,
       TargetSig \<lparr> t_name = ''ab'', t_formula = ''a + 1'', t_value_s = 1 \<rparr>,
       RemoveSig ''ab'']) = [(''ab'', 1)]"
    by (simp add: scope_s_def scopeReducer_s_def valueReducer_def set_lensProp_def
        removeReducer_def omit_def string_elements_def)
  moreover have "last (storage_states []
      [TargetSig \<lparr> t_name = ''a'', t_formula = ''1'', t_value_s = (0::nat) \<rparr>,
       TargetSig \<lparr> t_name = ''ab'', t_formula = ''a + 1'', t_value_s = 1 \<rparr>,
       RemoveSig ''ab'']) = [(''ab'', ''a + 1'')]"
    by (simp add: storage_states_def storageReducer_s_def formulaReducer_def set_lensProp_def
        removeReducer_def omit_def string_elements_def)
  moreover have "lensScope [''ab''] [instant example_holds [(''ab'', 1)]] = [[(''ab'', Val 2)]]"
    by (simp add: lensScope_def instant_def example_holds_def props_def propR_def
        when_undefined_def zipObj_def uniq_obj_def dropRepeats_def)
  moreover have "lensScope [''a''] [instant example_holds [(''ab'', 1)]] = [[(''a'', Undefined)]]"
    by (simp add: lensScope_def instant_def example_holds_def props_def propR_def
        when_undefined_def undefined_s_def zipObj_def uniq_obj_def dropRepeats_def)
  moreover have "removeReducer_indexOf ''ab'' [(''a'', ''1''), (''ab'', ''a + 1'')] = []"
    by (simp add: removeReducer_indexOf_def omit_indexOf_def is_substring_def upt_rec)
  ultimately show ?thesis
    by simp
qed

end
